theory Spec2Isabelle
  imports Complex_Main "HOL-Library.Sublist"
begin

section \<open>JavaScript values and built-ins used by the client\<close>

text \<open>
  Strings are byte lists.  The numbers the client computes with (HTTP status codes,
  millisecond timestamps, \<open>expires_in\<close>, result limits and game ids) are integers and are
  modelled by \<open>int\<close>; the two rating fields of a game are fractional and are modelled by
  \<open>rat\<close>.  A value of type \<open>T | undefined\<close> is a \<open>T option\<close>.  Every thrown value of the
  program is a JavaScript \<open>Error\<close> carrying a message.
\<close>

abbreviation dquote :: char where "dquote \<equiv> CHR 0x22"
abbreviation backslash :: char where "backslash \<equiv> CHR 0x5C"
abbreviation newline :: char where "newline \<equiv> CHR 0x0A"

datatype js_error = Error (message: string)

text \<open>Truthiness of \<open>string | undefined\<close> and of \<open>number | undefined\<close>: the empty string and
  the number zero are falsy, as \<open>undefined\<close> is.\<close>

definition truthy_string :: "string option \<Rightarrow> bool" where
  "truthy_string v = (case v of None \<Rightarrow> False | Some s \<Rightarrow> s \<noteq> [])"

definition truthy_number :: "'a::zero option \<Rightarrow> bool" where
  "truthy_number v = (case v of None \<Rightarrow> False | Some n \<Rightarrow> n \<noteq> 0)"

text \<open>The expression \<open>v || d\<close> on a \<open>number | undefined\<close>.\<close>

definition or_default :: "int option \<Rightarrow> int \<Rightarrow> int" where
  "or_default v d = (if truthy_number v then the v else d)"

text \<open>\<open>String(n)\<close> for an integer \<open>n\<close>, as template literals apply it: its decimal digits,
  with a minus sign when negative (the form JavaScript prints for integers of magnitude
  below \<open>10^21\<close>).\<close>

definition digit :: "nat \<Rightarrow> char" where
  "digit n = char_of (48 + n)"

function natToString :: "nat \<Rightarrow> string" where
  "natToString n = (if n < 10 then [digit n] else natToString (n div 10) @ [digit (n mod 10)])"
  by pat_completeness auto
termination
  by (relation "measure (\<lambda>n. n)") auto

declare natToString.simps [simp del]

definition numToString :: "int \<Rightarrow> string" where
  "numToString i = (if i < 0 then CHR ''-'' # natToString (nat (- i)) else natToString (nat i))"

text \<open>\<open>xs.join(sep)\<close> on an array of strings.\<close>

fun join :: "string \<Rightarrow> string list \<Rightarrow> string" where
  "join sep [] = []"
| "join sep [x] = x"
| "join sep (x # y # ys) = x @ sep @ join sep (y # ys)"

text \<open>\<open>s.replace(/"/g, '\\"')\<close>: a left-to-right scan that emits the two characters
  backslash, double quote for every double quote it meets and copies every other character.\<close>

fun replace_dquotes :: "string \<Rightarrow> string" where
  "replace_dquotes [] = []"
| "replace_dquotes (c # cs) =
     (if c = dquote then backslash # dquote # replace_dquotes cs else c # replace_dquotes cs)"

text \<open>\<open>new URLSearchParams({...}).toString()\<close>: the form-urlencoded serialisation.\<close>

definition hexdigit :: "nat \<Rightarrow> char" where
  "hexdigit n = (if n < 10 then char_of (48 + n) else char_of (55 + n))"

definition urlencode_char :: "char \<Rightarrow> string" where
  "urlencode_char c =
     (let n = (of_char c :: nat) in
      if (48 \<le> n \<and> n \<le> 57) \<or> (65 \<le> n \<and> n \<le> 90) \<or> (97 \<le> n \<and> n \<le> 122)
         \<or> c \<in> set ''*-._'' then [c]
      else if c = CHR '' '' then ''+''
      else [CHR ''%'', hexdigit (n div 16), hexdigit (n mod 16)])"

definition urlencode :: "string \<Rightarrow> string" where
  "urlencode s = concat (map urlencode_char s)"

definition URLSearchParams :: "(string \<times> string) list \<Rightarrow> string" where
  "URLSearchParams ps = join ''&'' (map (\<lambda>(k, v). urlencode k @ ''='' @ urlencode v) ps)"

section \<open>HTTP requests, responses and the outside world\<close>

record request =
  url :: string
  http_method :: string
  headers :: "(string \<times> string) list"
  body :: "string option"

text \<open>A response as the program reads it: its status, the body as text (\<open>response.text()\<close>)
  and the body parsed as JSON and cast to the type the caller declares (\<open>response.json()\<close>,
  which rejects with an error when the body is not JSON).\<close>

record 'a response =
  status :: int
  body_text :: string
  json :: "js_error + 'a"

definition ok :: "'a response \<Rightarrow> bool" where
  "ok r = (200 \<le> status r \<and> status r \<le> 299)"

text \<open>The world outside the process: the clock read by \<open>Date.now()\<close> and the requests issued
  so far, oldest first.\<close>

record world =
  now :: int
  sent :: "request list"

text \<open>A remote service answers a request issued at a given time with a response, or the
  \<open>fetch\<close> rejects; it also tells how many milliseconds pass until the program resumes
  with the body read.\<close>

type_synonym 'a remote = "request \<Rightarrow> int \<Rightarrow> (js_error + 'a response) \<times> nat"

definition fetch :: "'a remote \<Rightarrow> request \<Rightarrow> world \<Rightarrow> (js_error + 'a response) \<times> world" where
  "fetch remote req w =
     (case remote req (now w) of
        (outcome, elapsed) \<Rightarrow>
          (outcome, w\<lparr>now := now w + int elapsed, sent := sent w @ [req]\<rparr>))"

section \<open>The IGDB client\<close>

record OAuthToken =
  access_token :: string
  expires_in :: int
  token_type :: string

record TokenData =
  token :: string
  expiresAt :: int

record IGDBClient =
  clientId :: string
  clientSecret :: string
  tokenData :: "TokenData option"

subsection \<open>Constructor\<close>

definition constructor :: "(string \<rightharpoonup> string) \<Rightarrow> js_error + IGDBClient" where
  "constructor env =
     (let cid = env ''IGDB_CLIENT_ID''; csecret = env ''IGDB_CLIENT_SECRET'' in
      if \<not> truthy_string cid \<or> \<not> truthy_string csecret then
        Inl (Error ''Missing IGDB credentials. Please set IGDB_CLIENT_ID and IGDB_CLIENT_SECRET environment variables.'')
      else Inr \<lparr>clientId = the cid, clientSecret = the csecret, tokenData = None\<rparr>)"

subsection \<open>getToken\<close>

definition token_request :: "IGDBClient \<Rightarrow> request" where
  "token_request c =
     \<lparr>url = ''https://id.twitch.tv/oauth2/token'' @ ''?'' @
            URLSearchParams [(''client_id'', clientId c), (''client_secret'', clientSecret c),
                             (''grant_type'', ''client_credentials'')],
      http_method = ''POST'', headers = [], body = None\<rparr>"

text \<open>The test \<open>this.tokenData && Date.now() < this.tokenData.expiresAt - 300000\<close>.\<close>

definition cached_valid :: "IGDBClient \<Rightarrow> world \<Rightarrow> bool" where
  "cached_valid c w =
     (case tokenData c of None \<Rightarrow> False | Some td \<Rightarrow> now w < expiresAt td - 300000)"

text \<open>The part of \<open>getToken\<close> after the cache test: one request to the identity provider.
  The clock is read again only once the body has been parsed.\<close>

definition fetch_new_token ::
  "OAuthToken remote \<Rightarrow> IGDBClient \<Rightarrow> world \<Rightarrow> (js_error + string) \<times> IGDBClient \<times> world" where
  "fetch_new_token idp c w =
     (case fetch idp (token_request c) w of
        (Inl e, w1) \<Rightarrow> (Inl e, c, w1)
      | (Inr resp, w1) \<Rightarrow>
          if \<not> ok resp then
            (Inl (Error (''Failed to authenticate with Twitch: '' @ numToString (status resp)
                          @ '' '' @ body_text resp)), c, w1)
          else
            (case json resp of
               Inl e \<Rightarrow> (Inl e, c, w1)
             | Inr data \<Rightarrow>
                 (Inr (access_token data),
                  c\<lparr>tokenData := Some \<lparr>token = access_token data,
                                         expiresAt = now w1 + expires_in data * 1000\<rparr>\<rparr>,
                  w1)))"

definition getToken ::
  "OAuthToken remote \<Rightarrow> IGDBClient \<Rightarrow> world \<Rightarrow> (js_error + string) \<times> IGDBClient \<times> world" where
  "getToken idp c w =
     (if cached_valid c w then (Inr (token (the (tokenData c))), c, w)
      else fetch_new_token idp c w)"

subsection \<open>Game records\<close>

text \<open>The shape \<open>{ id: number; name: string }\<close> of the relation fields.\<close>

record named =
  named_id :: int
  named_name :: string

record involved_company =
  company :: named

record cover_image =
  cover_url :: string

record Game =
  id_num :: int
  name :: string
  summary :: "string option"
  storyline :: "string option"
  rating :: "rat option"
  aggregated_rating :: "rat option"
  first_release_date :: "int option"
  genres :: "named list option"
  platforms :: "named list option"
  themes :: "named list option"
  game_modes :: "named list option"
  involved_companies :: "involved_company list option"
  similar_games :: "named list option"
  cover :: "cover_image option"

subsection \<open>request, searchGames, getGameDetails\<close>

record remotes =
  idp :: "OAuthToken remote"
  api :: "Game list remote"

definition api_request :: "IGDBClient \<Rightarrow> string \<Rightarrow> string \<Rightarrow> string \<Rightarrow> request" where
  "api_request c tok endpoint bdy =
     \<lparr>url = ''https://api.igdb.com/v4/'' @ endpoint,
      http_method = ''POST'',
      headers = [(''Client-ID'', clientId c), (''Authorization'', ''Bearer '' @ tok),
                 (''Content-Type'', ''text/plain'')],
      body = Some bdy\<rparr>"

definition request ::
  "remotes \<Rightarrow> IGDBClient \<Rightarrow> world \<Rightarrow> string \<Rightarrow> string
     \<Rightarrow> (js_error + Game list) \<times> IGDBClient \<times> world" where
  "request net c w endpoint bdy =
     (case getToken (idp net) c w of
        (Inl e, c1, w1) \<Rightarrow> (Inl e, c1, w1)
      | (Inr tok, c1, w1) \<Rightarrow>
          (case fetch (api net) (api_request c1 tok endpoint bdy) w1 of
             (Inl e, w2) \<Rightarrow> (Inl e, c1, w2)
           | (Inr resp, w2) \<Rightarrow>
               if \<not> ok resp then
                 (Inl (Error (''IGDB API error: '' @ numToString (status resp)
                               @ '' '' @ body_text resp)), c1, w2)
               else (json resp, c1, w2)))"

definition search_body :: "string \<Rightarrow> int \<Rightarrow> string" where
  "search_body query limit =
     [newline] @ ''      search '' @ [dquote] @ replace_dquotes query @ [dquote] @ '';'' @
     [newline] @ ''      fields name, summary, rating, aggregated_rating,'' @
     [newline] @ ''             genres.name, platforms.name,'' @
     [newline] @ ''             first_release_date, cover.url,'' @
     [newline] @ ''             involved_companies.company.name;'' @
     [newline] @ ''      limit '' @ numToString limit @ '';'' @
     [newline] @ ''    ''"

text \<open>The parameter \<open>limit: number = 10\<close> takes its default when the caller passes none.\<close>

definition searchGames ::
  "remotes \<Rightarrow> IGDBClient \<Rightarrow> world \<Rightarrow> string \<Rightarrow> int option
     \<Rightarrow> (js_error + Game list) \<times> IGDBClient \<times> world" where
  "searchGames net c w query limit_arg =
     (let limit = (case limit_arg of None \<Rightarrow> 10 | Some l \<Rightarrow> l)
      in request net c w ''games'' (search_body query limit))"

definition details_body :: "int \<Rightarrow> string" where
  "details_body gameId =
     [newline] @ ''      where id = '' @ numToString gameId @ '';'' @
     [newline] @ ''      fields name, summary, storyline, rating, aggregated_rating,'' @
     [newline] @ ''             genres.name, themes.name, platforms.name,'' @
     [newline] @ ''             first_release_date, cover.url,'' @
     [newline] @ ''             involved_companies.company.name,'' @
     [newline] @ ''             similar_games.name, similar_games.id,'' @
     [newline] @ ''             game_modes.name;'' @
     [newline] @ ''    ''"

definition getGameDetails ::
  "remotes \<Rightarrow> IGDBClient \<Rightarrow> world \<Rightarrow> int
     \<Rightarrow> (js_error + Game option) \<times> IGDBClient \<times> world" where
  "getGameDetails net c w gameId =
     (case request net c w ''games'' (details_body gameId) of
        (Inl e, c1, w1) \<Rightarrow> (Inl e, c1, w1)
      | (Inr gameArray, c1, w1) \<Rightarrow>
          (Inr (if length gameArray > 0 then Some (gameArray ! 0) else None), c1, w1))"

section \<open>The tool server\<close>

subsection \<open>Formatting\<close>

text \<open>Two built-ins of the JavaScript runtime are parameters of the formatters:
  \<open>x.toFixed(1)\<close> on a rating, and \<open>new Date(ms).toLocaleDateString()\<close>, which depends on
  the locale and time zone of the host.\<close>

record js_runtime =
  toFixed1 :: "rat \<Rightarrow> string"
  toLocaleDateString :: "int \<Rightarrow> string"

text \<open>The test \<open>xs && xs.length > 0\<close> on an optional array.\<close>

definition nonempty :: "'a list option \<Rightarrow> bool" where
  "nonempty v = (case v of None \<Rightarrow> False | Some xs \<Rightarrow> length xs > 0)"

definition formatGame :: "js_runtime \<Rightarrow> Game \<Rightarrow> string" where
  "formatGame rt game =
     join [newline]
       ([''**'' @ name game @ ''** (ID: '' @ numToString (id_num game) @ '')'']
        @ (if truthy_number (rating game)
           then [''Rating: '' @ toFixed1 rt (the (rating game)) @ ''/100''] else [])
        @ (if truthy_number (aggregated_rating game)
           then [''Critic Rating: '' @ toFixed1 rt (the (aggregated_rating game)) @ ''/100'']
           else [])
        @ (if truthy_number (first_release_date game)
           then [''Released: '' @ toLocaleDateString rt (the (first_release_date game) * 1000)]
           else [])
        @ (if nonempty (genres game)
           then [''Genres: '' @ join '', '' (map named_name (the (genres game)))] else [])
        @ (if nonempty (platforms game)
           then [''Platforms: '' @ join '', '' (map named_name (the (platforms game)))] else [])
        @ (if truthy_string (summary game)
           then [[newline] @ ''Summary: '' @ the (summary game)] else []))"

definition formatGameDetails :: "js_runtime \<Rightarrow> Game \<Rightarrow> string" where
  "formatGameDetails rt game =
     join [newline]
       ([''# '' @ name game,
         ''**IGDB ID:** '' @ numToString (id_num game),
         []]
        @ (if truthy_number (rating game)
           then [''**User Rating:** '' @ toFixed1 rt (the (rating game)) @ ''/100''] else [])
        @ (if truthy_number (aggregated_rating game)
           then [''**Critic Rating:** '' @ toFixed1 rt (the (aggregated_rating game)) @ ''/100'']
           else [])
        @ (if truthy_number (first_release_date game)
           then [''**Released:** '' @ toLocaleDateString rt (the (first_release_date game) * 1000)]
           else [])
        @ [[]]
        @ (if nonempty (genres game)
           then [''**Genres:** '' @ join '', '' (map named_name (the (genres game)))] else [])
        @ (if nonempty (themes game)
           then [''**Themes:** '' @ join '', '' (map named_name (the (themes game)))] else [])
        @ (if nonempty (platforms game)
           then [''**Platforms:** '' @ join '', '' (map named_name (the (platforms game)))]
           else [])
        @ (if nonempty (game_modes game)
           then [''**Game Modes:** '' @ join '', '' (map named_name (the (game_modes game)))]
           else [])
        @ (if nonempty (involved_companies game)
           then [''**Companies:** '' @
                 join '', '' (map (\<lambda>c. named_name (company c)) (the (involved_companies game)))]
           else [])
        @ [[]]
        @ (if truthy_string (summary game)
           then [''## Summary'', the (summary game), []] else [])
        @ (if truthy_string (storyline game)
           then [''## Storyline'', the (storyline game), []] else [])
        @ (if nonempty (similar_games game)
           then ''## Similar Games'' #
                map (\<lambda>similar. ''- '' @ named_name similar @ '' (ID: ''
                                  @ numToString (named_id similar) @ '')'')
                    (the (similar_games game))
           else []))"

subsection \<open>The tool-call handler\<close>

text \<open>The arguments object of a tool call, with the fields the handler reads at the types
  it casts them to; the object itself is optional (\<open>args?.query\<close>).\<close>

record tool_args =
  query :: "string option"
  limit :: "int option"
  game_id :: "int option"

definition opt_field :: "tool_args option \<Rightarrow> (tool_args \<Rightarrow> 'a option) \<Rightarrow> 'a option" where
  "opt_field args f = (case args of None \<Rightarrow> None | Some a \<Rightarrow> f a)"

text \<open>A content item \<open>{ type: "text", text: s }\<close>, and a result whose \<open>isError\<close> may be
  missing.\<close>

datatype content_item = TextContent string

record CallToolResult =
  content :: "content_item list"
  isError :: "bool option"

definition text_result :: "string \<Rightarrow> CallToolResult" where
  "text_result s = \<lparr>content = [TextContent s], isError = None\<rparr>"

definition error_result :: "string \<Rightarrow> CallToolResult" where
  "error_result s = \<lparr>content = [TextContent s], isError = Some True\<rparr>"

text \<open>The \<open>catch\<close> block of the handler.\<close>

definition catch_block :: "js_error \<Rightarrow> CallToolResult" where
  "catch_block e = error_result (''Error: '' @ message e)"

text \<open>The local \<open>limit\<close> of the \<open>search_games\<close> branch:
  \<open>Math.min((args?.limit as number) || 10, 50)\<close>.\<close>

definition search_limit :: "tool_args option \<Rightarrow> int" where
  "search_limit args = min (or_default (opt_field args limit) 10) 50"

definition handler ::
  "js_runtime \<Rightarrow> remotes \<Rightarrow> IGDBClient \<Rightarrow> world \<Rightarrow> string \<Rightarrow> tool_args option
     \<Rightarrow> CallToolResult \<times> IGDBClient \<times> world" where
  "handler rt net igdbClient w tool args =
     (if tool = ''search_games'' then
        (let qry = opt_field args query; lmt = search_limit args in
         if \<not> truthy_string qry then
           (error_result ''Error: query parameter is required'', igdbClient, w)
         else
           (case searchGames net igdbClient w (the qry) (Some lmt) of
              (Inl e, c1, w1) \<Rightarrow> (catch_block e, c1, w1)
            | (Inr games, c1, w1) \<Rightarrow>
                if length games = 0 then
                  (text_result (''No games found matching '' @ [dquote] @ the qry @ [dquote]),
                   c1, w1)
                else
                  (text_result
                     (''Found '' @ numToString (int (length games)) @ '' game(s) matching ''
                      @ [dquote] @ the qry @ [dquote] @ '':'' @ [newline, newline]
                      @ join ([newline, newline] @ ''---'' @ [newline, newline])
                          (map (formatGame rt) games)),
                   c1, w1)))
      else if tool = ''get_game_details'' then
        (let gameId = opt_field args game_id in
         if \<not> truthy_number gameId then
           (error_result ''Error: game_id parameter is required'', igdbClient, w)
         else
           (case getGameDetails net igdbClient w (the gameId) of
              (Inl e, c1, w1) \<Rightarrow> (catch_block e, c1, w1)
            | (Inr None, c1, w1) \<Rightarrow>
                (text_result (''No game found with ID '' @ numToString (the gameId)), c1, w1)
            | (Inr (Some game), c1, w1) \<Rightarrow>
                (text_result (formatGameDetails rt game), c1, w1)))
      else (error_result (''Unknown tool: '' @ tool), igdbClient, w))"

section \<open>Observing a run\<close>

text \<open>A request to the identity provider is recognised by the address it goes to.\<close>

definition is_token_request :: "request \<Rightarrow> bool" where
  "is_token_request r = prefix ''https://id.twitch.tv/oauth2/token'' (url r)"

text \<open>The texts of a result's content items.\<close>

definition result_texts :: "CallToolResult \<Rightarrow> string list" where
  "result_texts r = map (\<lambda>item. case item of TextContent s \<Rightarrow> s) (content r)"

text \<open>Modelled from the spec: the query language belongs to the remote service and no
  reader of it is in the repository.  The spec speaks of an escaped double quote that keeps
  the query-language string literal well-formed, which is the reading \<open>searchGames\<close>
  relies on when it writes backslash, double quote: a backslash escapes the character after
  it, and the literal ends at the first double quote that is not escaped.  Given the text
  after the opening quote, \<open>read_literal\<close> returns the literal's raw content and the
  text after its closing quote, or nothing when the literal is never closed.\<close>

fun read_literal :: "string \<Rightarrow> (string \<times> string) option" where
  "read_literal [] = None"
| "read_literal (c # cs) =
     (if c = dquote then Some ([], cs)
      else if c = backslash then
        (case cs of
           [] \<Rightarrow> None
         | d # ds \<Rightarrow> map_option (\<lambda>(s, r). (c # d # s, r)) (read_literal ds))
      else map_option (\<lambda>(s, r). (c # s, r)) (read_literal cs))"

text \<open>The literal of the \<open>search\<close> clause as the service reads it from the body of
  \<open>searchGames\<close>, and the text the body is meant to carry after that literal.\<close>

definition search_literal :: "string \<Rightarrow> int \<Rightarrow> (string \<times> string) option" where
  "search_literal q n =
     read_literal (drop (length ([newline] @ ''      search '' @ [dquote])) (search_body q n))"

definition after_literal :: "int \<Rightarrow> string" where
  "after_literal n =
     '';'' @
     [newline] @ ''      fields name, summary, rating, aggregated_rating,'' @
     [newline] @ ''             genres.name, platforms.name,'' @
     [newline] @ ''             first_release_date, cover.url,'' @
     [newline] @ ''             involved_companies.company.name;'' @
     [newline] @ ''      limit '' @ numToString n @ '';'' @
     [newline] @ ''    ''"

section \<open>Concrete scenarios\<close>

definition fresh_client :: IGDBClient where
  "fresh_client = \<lparr>clientId = ''my-client-id'', clientSecret = ''my-secret'', tokenData = None\<rparr>"

definition cached_client :: IGDBClient where
  "cached_client =
     \<lparr>clientId = ''my-client-id'', clientSecret = ''my-secret'',
      tokenData = Some \<lparr>token = ''cached-token'', expiresAt = 2000000\<rparr>\<rparr>"

text \<open>At time 1000000 the cached token (expiring at 2000000) is still usable; at 1900000
  it is inside the five-minute margin.\<close>

definition early_world :: world where
  "early_world = \<lparr>now = 1000000, sent = []\<rparr>"

definition late_world :: world where
  "late_world = \<lparr>now = 1900000, sent = []\<rparr>"

definition granting_idp :: "OAuthToken remote" where
  "granting_idp =
     (\<lambda>req t. (Inr \<lparr>status = 200, body_text = ''{...}'',
                      json = Inr \<lparr>access_token = ''new-token'', expires_in = 5000,
                                  token_type = ''bearer''\<rparr>\<rparr>, 40))"

definition rejecting_idp :: "OAuthToken remote" where
  "rejecting_idp =
     (\<lambda>req t. (Inr \<lparr>status = 401, body_text = ''invalid_client'',
                      json = Inl (Error ''Unexpected token i in JSON at position 0'')\<rparr>, 40))"

definition api_returning :: "Game list \<Rightarrow> Game list remote" where
  "api_returning games = (\<lambda>req t. (Inr \<lparr>status = 200, body_text = ''[...]'', json = Inr games\<rparr>, 25))"

definition bare_game :: "int \<Rightarrow> string \<Rightarrow> Game" where
  "bare_game i n =
     \<lparr>id_num = i, name = n, summary = None, storyline = None, rating = None,
      aggregated_rating = None, first_release_date = None, genres = None, platforms = None,
      themes = None, game_modes = None, involved_companies = None, similar_games = None,
      cover = None\<rparr>"

definition granting_net :: remotes where
  "granting_net = \<lparr>idp = granting_idp, api = api_returning []\<rparr>"

definition rejecting_net :: remotes where
  "rejecting_net = \<lparr>idp = rejecting_idp, api = api_returning []\<rparr>"

definition two_games_net :: remotes where
  "two_games_net =
     \<lparr>idp = granting_idp,
      api = api_returning [bare_game 1920 ''Final Fantasy Tactics'', bare_game 7 ''Other'']\<rparr>"

text \<open>A host for the scenarios; none of them formats a rating or a date.\<close>

definition scenario_runtime :: js_runtime where
  "scenario_runtime = \<lparr>toFixed1 = (\<lambda>x. ''0.0''), toLocaleDateString = (\<lambda>ms. ''1/1/1970'')\<rparr>"

section \<open>Auxiliary facts\<close>

lemma numToString_401: "numToString 401 = ''401''"
  by code_simp

lemma numToString_1920: "numToString 1920 = ''1920''"
  by code_simp

lemma numToString_500: "numToString 500 = ''500''"
  by code_simp

lemma fetch_sent: "fetch remote req w = (out, w1) \<Longrightarrow> sent w1 = sent w @ [req]"
  by (auto simp: fetch_def split: prod.splits)

lemma api_request_not_token: "\<not> is_token_request (api_request c tok ep b)"
  by (simp add: is_token_request_def api_request_def)

lemma token_request_is_token: "is_token_request (token_request c)"
  by (simp add: is_token_request_def token_request_def)

lemma fetch_new_token_sent:
  "sent (snd (snd (fetch_new_token remote c w))) = sent w @ [token_request c]"
  by (auto simp: fetch_new_token_def fetch_def split: prod.splits sum.splits)

lemma stale_not_valid:
  "tokenData c = None \<or> (\<exists>td. tokenData c = Some td \<and> expiresAt td - 300000 \<le> now w)
     \<Longrightarrow> \<not> cached_valid c w"
  by (auto simp: cached_valid_def)

lemma request_after_token:
  assumes "getToken (idp net) c w = (Inr tok, c1, w1)"
  shows "sent (snd (snd (request net c w ep b))) = sent w1 @ [api_request c1 tok ep b]"
proof -
  obtain out w2 where f: "fetch (api net) (api_request c1 tok ep b) w1 = (out, w2)"
    by (cases "fetch (api net) (api_request c1 tok ep b) w1")
  then have "sent w2 = sent w1 @ [api_request c1 tok ep b]" by (rule fetch_sent)
  moreover have "snd (snd (request net c w ep b)) = w2"
    using assms f by (auto simp: request_def split: sum.splits)
  ultimately show ?thesis by simp
qed

lemma digit_inj: "a < 10 \<Longrightarrow> b < 10 \<Longrightarrow> digit a = digit b \<Longrightarrow> a = b"
proof -
  assume a: "a < 10" and b: "b < 10" and e: "digit a = digit b"
  from e have "(of_char (digit a) :: nat) = of_char (digit b)" by simp
  then show "a = b" using a b by (simp add: digit_def)
qed

lemma digit_not_minus: "n < 10 \<Longrightarrow> digit n \<noteq> CHR ''-''"
proof
  assume a: "n < 10" and e: "digit n = CHR ''-''"
  from e have "(of_char (digit n) :: nat) = of_char (CHR ''-'')" by simp
  then show False using a by (simp add: digit_def)
qed

lemma natToString_small: "n < 10 \<Longrightarrow> natToString n = [digit n]"
  by (subst natToString.simps) simp

lemma natToString_big:
  "\<not> n < 10 \<Longrightarrow> natToString n = natToString (n div 10) @ [digit (n mod 10)]"
  by (subst natToString.simps) simp

lemma natToString_nonempty: "natToString n \<noteq> []"
  by (subst natToString.simps) simp

lemma natToString_nonempty': "[] \<noteq> natToString n"
  using natToString_nonempty[of n] by simp

lemma natToString_hd: "hd (natToString n) \<noteq> CHR ''-''"
proof (induction n rule: natToString.induct)
  case (1 n)
  show ?case
  proof (cases "n < 10")
    case True
    then show ?thesis by (simp add: natToString_small digit_not_minus)
  next
    case False
    with 1 show ?thesis by (simp add: natToString_big natToString_nonempty)
  qed
qed

lemma natToString_inj: "natToString a = natToString b \<Longrightarrow> a = b"
proof (induction a arbitrary: b rule: natToString.induct)
  case (1 a)
  show ?case
  proof (cases "a < 10")
    case a: True
    show ?thesis
    proof (cases "b < 10")
      case True
      with a "1.prems" show ?thesis by (simp add: natToString_small digit_inj)
    next
      case False
      with a "1.prems" show ?thesis
        by (simp add: natToString_small natToString_big natToString_nonempty')
    qed
  next
    case a: False
    show ?thesis
    proof (cases "b < 10")
      case True
      with a "1.prems" show ?thesis
        by (simp add: natToString_small natToString_big natToString_nonempty)
    next
      case False
      with a "1.prems" have e: "natToString (a div 10) = natToString (b div 10)"
        and d: "digit (a mod 10) = digit (b mod 10)"
        by (simp_all add: natToString_big)
      from "1.IH"[OF a e] have "a div 10 = b div 10" .
      moreover from d have "a mod 10 = b mod 10" by (intro digit_inj) simp_all
      ultimately show ?thesis by (metis div_mult_mod_eq)
    qed
  qed
qed

lemma numToString_sign: "x < 0 \<Longrightarrow> \<not> y < 0 \<Longrightarrow> numToString x \<noteq> numToString y"
proof
  assume "x < 0" "\<not> y < 0" "numToString x = numToString y"
  then have "CHR ''-'' # natToString (nat (- x)) = natToString (nat y)"
    by (simp add: numToString_def)
  then have "hd (natToString (nat y)) = CHR ''-''" by (metis list.sel(1))
  then show False using natToString_hd by blast
qed

lemma numToString_inj: "numToString a = numToString b \<Longrightarrow> a = b"
proof -
  assume e: "numToString a = numToString b"
  show "a = b"
  proof (cases "a < 0")
    case a: True
    show ?thesis
    proof (cases "b < 0")
      case True
      with a e have "nat (- a) = nat (- b)" by (simp add: numToString_def natToString_inj)
      with a True show ?thesis by simp
    next
      case False
      with a e numToString_sign[of a b] show ?thesis by blast
    qed
  next
    case a: False
    show ?thesis
    proof (cases "b < 0")
      case True
      with a e numToString_sign[of b a] show ?thesis by simp
    next
      case False
      with a e have "nat a = nat b" by (simp add: numToString_def natToString_inj)
      with a False show ?thesis by simp
    qed
  qed
qed

lemma search_body_inj: "search_body q m = search_body q n \<Longrightarrow> m = n"
  by (simp add: search_body_def numToString_inj)

lemma replace_dquotes_concat:
  "replace_dquotes q = concat (map (\<lambda>ch. if ch = dquote then [backslash, dquote] else [ch]) q)"
  by (induction q) auto

lemma replace_dquotes_escaped:
  "i < length (replace_dquotes q) \<Longrightarrow> replace_dquotes q ! i = dquote \<Longrightarrow>
     0 < i \<and> replace_dquotes q ! (i - 1) = backslash"
proof (induction q arbitrary: i)
  case Nil
  then show ?case by simp
next
  case (Cons c cs)
  show ?case
  proof (cases "c = dquote")
    case True
    show ?thesis
    proof (cases i)
      case 0
      with Cons.prems True show ?thesis by simp
    next
      case (Suc j)
      show ?thesis
      proof (cases j)
        case 0
        with Suc True show ?thesis by simp
      next
        case (Suc k)
        with \<open>i = Suc j\<close> Cons.prems True
        have "k < length (replace_dquotes cs)" "replace_dquotes cs ! k = dquote" by simp_all
        from Cons.IH[OF this] obtain "0 < k" "replace_dquotes cs ! (k - 1) = backslash"
          by blast
        with Suc \<open>i = Suc j\<close> True show ?thesis by (cases k) simp_all
      qed
    qed
  next
    case False
    show ?thesis
    proof (cases i)
      case 0
      with Cons.prems False show ?thesis by simp
    next
      case (Suc j)
      with Cons.prems False
      have "j < length (replace_dquotes cs)" "replace_dquotes cs ! j = dquote" by simp_all
      from Cons.IH[OF this] obtain "0 < j" "replace_dquotes cs ! (j - 1) = backslash"
        by blast
      with Suc False show ?thesis by (cases j) simp_all
    qed
  qed
qed

lemma handler_search_games:
  "handler rt net c w ''search_games'' args =
     (if \<not> truthy_string (opt_field args query) then
        (error_result ''Error: query parameter is required'', c, w)
      else
        (case searchGames net c w (the (opt_field args query)) (Some (search_limit args)) of
           (Inl e, c1, w1) \<Rightarrow> (catch_block e, c1, w1)
         | (Inr games, c1, w1) \<Rightarrow>
             if length games = 0 then
               (text_result (''No games found matching '' @ [dquote]
                             @ the (opt_field args query) @ [dquote]), c1, w1)
             else
               (text_result
                  (''Found '' @ numToString (int (length games)) @ '' game(s) matching ''
                   @ [dquote] @ the (opt_field args query) @ [dquote] @ '':''
                   @ [newline, newline]
                   @ join ([newline, newline] @ ''---'' @ [newline, newline])
                       (map (formatGame rt) games)),
                c1, w1)))"
  by (simp add: handler_def Let_def)

lemma handler_get_game_details:
  "handler rt net c w ''get_game_details'' args =
     (if \<not> truthy_number (opt_field args game_id) then
        (error_result ''Error: game_id parameter is required'', c, w)
      else
        (case getGameDetails net c w (the (opt_field args game_id)) of
           (Inl e, c1, w1) \<Rightarrow> (catch_block e, c1, w1)
         | (Inr None, c1, w1) \<Rightarrow>
             (text_result (''No game found with ID ''
                           @ numToString (the (opt_field args game_id))), c1, w1)
         | (Inr (Some game), c1, w1) \<Rightarrow> (text_result (formatGameDetails rt game), c1, w1)))"
  by (simp add: handler_def Let_def)

lemma handler_unknown_tool:
  "tool \<noteq> ''search_games'' \<Longrightarrow> tool \<noteq> ''get_game_details'' \<Longrightarrow>
     handler rt net c w tool args = (error_result (''Unknown tool: '' @ tool), c, w)"
  by (simp add: handler_def)

lemma search_limit_cases:
  "search_limit args =
     (case opt_field args limit of
        None \<Rightarrow> 10
      | Some l \<Rightarrow> if l = 0 then 10 else if l \<le> 50 then l else 50)"
  by (auto simp: search_limit_def or_default_def truthy_number_def split: option.splits)

lemma getToken_cached_early:
  "getToken (idp net) cached_client early_world
     = (Inr ''cached-token'', cached_client, early_world)"
  by (simp add: getToken_def cached_valid_def cached_client_def early_world_def)

lemma read_literal_escaped:
  "backslash \<notin> set q \<Longrightarrow>
     read_literal (replace_dquotes q @ dquote # rest) = Some (replace_dquotes q, rest)"
  by (induction q) auto

lemma search_literal_intact:
  "backslash \<notin> set q \<Longrightarrow> search_literal q n = Some (replace_dquotes q, after_literal n)"
  using read_literal_escaped[of q "after_literal n"]
  by (simp add: search_literal_def search_body_def after_literal_def)

section \<open>The credential cache\<close>

text \<open>
  C1.  When a credential is cached and the current time is strictly less than its
  \<open>expiresAt\<close> minus 300000 ms, \<open>getToken\<close> returns the cached token and leaves both the
  client (so the cached credential) and the world (so the list of issued requests) as they
  were: no request goes to the identity provider, whatever it would have answered.  An
  operation run in such a state issues the data request alone.
\<close>

theorem getToken_cache_hit:
  assumes "tokenData c = Some td" and "now w < expiresAt td - 300000"
  shows "getToken remote c w = (Inr (token td), c, w)
       \<and> sent (snd (snd (getToken remote c w))) = sent w
       \<and> tokenData (fst (snd (getToken remote c w))) = Some td
       \<and> sent (snd (snd (request net c w endpoint bdy)))
           = sent w @ [api_request c (token td) endpoint bdy]
       \<and> \<not> is_token_request (api_request c (token td) endpoint bdy)"
proof -
  have g: "getToken remote' c w = (Inr (token td), c, w)" for remote'
    using assms by (simp add: getToken_def cached_valid_def)
  from request_after_token[OF g[of "idp net"]] g[of remote] assms(1) show ?thesis
    by (simp add: api_request_not_token)
qed

theorem getToken_cache_hit_witness:
  "tokenData cached_client = Some \<lparr>token = ''cached-token'', expiresAt = 2000000\<rparr>
   \<and> now early_world < 2000000 - 300000
   \<and> getToken rejecting_idp cached_client early_world
       = (Inr ''cached-token'', cached_client, early_world)
   \<and> sent (snd (snd (getToken rejecting_idp cached_client early_world))) = []"
proof -
  have h1: "tokenData cached_client = Some \<lparr>token = ''cached-token'', expiresAt = 2000000\<rparr>"
    by (simp add: cached_client_def)
  have h2: "now early_world < expiresAt \<lparr>token = ''cached-token'', expiresAt = 2000000\<rparr> - 300000"
    by (simp add: early_world_def)
  from getToken_cache_hit[OF h1 h2, of rejecting_idp] h1 show ?thesis
    by (simp add: early_world_def)
qed

section \<open>Construction\<close>

text \<open>
  C9 (as amended).  When \<open>IGDB_CLIENT_ID\<close> or \<open>IGDB_CLIENT_SECRET\<close> is missing from the
  environment or is the empty string, the constructor throws the error that names the
  missing configuration and no client is produced; when both are present and non-empty,
  construction succeeds, storing both values with no cached credential.
\<close>

theorem constructor_credentials:
  "((env ''IGDB_CLIENT_ID'' = None \<or> env ''IGDB_CLIENT_ID'' = Some []
      \<or> env ''IGDB_CLIENT_SECRET'' = None \<or> env ''IGDB_CLIENT_SECRET'' = Some [])
     \<longrightarrow> constructor env = Inl (Error ''Missing IGDB credentials. Please set IGDB_CLIENT_ID and IGDB_CLIENT_SECRET environment variables.''))
   \<and> (\<forall>i s. env ''IGDB_CLIENT_ID'' = Some i \<and> env ''IGDB_CLIENT_SECRET'' = Some s
              \<and> i \<noteq> [] \<and> s \<noteq> []
         \<longrightarrow> constructor env = Inr \<lparr>clientId = i, clientSecret = s, tokenData = None\<rparr>)"
  by (auto simp: constructor_def truthy_string_def Let_def)

theorem constructor_credentials_witness:
  "constructor (map_of [(''IGDB_CLIENT_ID'', ''my-client-id''), (''IGDB_CLIENT_SECRET'', ''my-secret'')])
     = Inr fresh_client
   \<and> constructor (map_of [(''IGDB_CLIENT_ID'', ''my-client-id'')])
     = Inl (Error ''Missing IGDB credentials. Please set IGDB_CLIENT_ID and IGDB_CLIENT_SECRET environment variables.'')"
  using constructor_credentials[of "map_of [(''IGDB_CLIENT_ID'', ''my-client-id''), (''IGDB_CLIENT_SECRET'', ''my-secret'')]"]
        constructor_credentials[of "map_of [(''IGDB_CLIENT_ID'', ''my-client-id'')]"]
  by (simp add: fresh_client_def)

text \<open>The claim as first stated (construction succeeds whenever both variables are present)
  fails for a variable that is set to the empty string.\<close>

theorem constructor_empty_value_counterexample:
  "map_of [(''IGDB_CLIENT_ID'', ''''), (''IGDB_CLIENT_SECRET'', ''my-secret'')] ''IGDB_CLIENT_ID'' = Some ''''
   \<and> map_of [(''IGDB_CLIENT_ID'', ''''), (''IGDB_CLIENT_SECRET'', ''my-secret'')] ''IGDB_CLIENT_SECRET''
       = Some ''my-secret''
   \<and> constructor (map_of [(''IGDB_CLIENT_ID'', ''''), (''IGDB_CLIENT_SECRET'', ''my-secret'')])
       = Inl (Error ''Missing IGDB credentials. Please set IGDB_CLIENT_ID and IGDB_CLIENT_SECRET environment variables.'')"
  by (simp add: constructor_def truthy_string_def Let_def)

text \<open>
  C2.  When no credential is cached, or the cached one has \<open>expiresAt - 300000 \<le> now\<close>,
  \<open>getToken\<close> issues exactly one request, the client-credentials request to the identity
  provider.  An operation therefore issues that request first and at most the data request
  after it, and no second request to the identity provider.  When the identity provider
  answers with a success status and a JSON body, the cached credential becomes the new
  token with \<open>expiresAt = now + expires_in * 1000\<close>, the clock being read after the answer
  has arrived, and the new token is returned.
\<close>

theorem getToken_refresh:
  assumes "tokenData c = None \<or> (\<exists>td. tokenData c = Some td \<and> expiresAt td - 300000 \<le> now w)"
  shows "sent (snd (snd (getToken (idp net) c w))) = sent w @ [token_request c]
       \<and> is_token_request (token_request c)
       \<and> (\<exists>rest. sent (snd (snd (request net c w endpoint bdy))) = sent w @ token_request c # rest
              \<and> filter is_token_request rest = []
              \<and> (rest = [] \<or> (\<exists>c1 tok. rest = [api_request c1 tok endpoint bdy])))
       \<and> (\<forall>resp w1 data.
              fetch (idp net) (token_request c) w = (Inr resp, w1) \<longrightarrow> ok resp
              \<longrightarrow> json resp = Inr data
              \<longrightarrow> getToken (idp net) c w =
                    (Inr (access_token data),
                     c\<lparr>tokenData := Some \<lparr>token = access_token data,
                                            expiresAt = now w1 + expires_in data * 1000\<rparr>\<rparr>,
                     w1))"
proof -
  from assms have nv: "\<not> cached_valid c w" by (rule stale_not_valid)
  have A: "sent (snd (snd (getToken (idp net) c w))) = sent w @ [token_request c]"
    using nv by (simp add: getToken_def fetch_new_token_sent)
  have B: "\<exists>rest. sent (snd (snd (request net c w endpoint bdy))) = sent w @ token_request c # rest
             \<and> filter is_token_request rest = []
             \<and> (rest = [] \<or> (\<exists>c1 tok. rest = [api_request c1 tok endpoint bdy]))"
  proof (cases "getToken (idp net) c w")
    case (fields res c1 w1)
    with A have s1: "sent w1 = sent w @ [token_request c]" by simp
    show ?thesis
    proof (cases res)
      case (Inl e)
      with fields s1 show ?thesis by (simp add: request_def)
    next
      case (Inr tok)
      with fields have "getToken (idp net) c w = (Inr tok, c1, w1)" by simp
      from request_after_token[OF this] s1
      have "sent (snd (snd (request net c w endpoint bdy)))
              = sent w @ token_request c # [api_request c1 tok endpoint bdy]"
        by simp
      then show ?thesis by (auto simp: api_request_not_token)
    qed
  qed
  have C: "\<forall>resp w1 data.
              fetch (idp net) (token_request c) w = (Inr resp, w1) \<longrightarrow> ok resp
              \<longrightarrow> json resp = Inr data
              \<longrightarrow> getToken (idp net) c w =
                    (Inr (access_token data),
                     c\<lparr>tokenData := Some \<lparr>token = access_token data,
                                            expiresAt = now w1 + expires_in data * 1000\<rparr>\<rparr>,
                     w1)"
    using nv by (simp add: getToken_def fetch_new_token_def)
  from A B C token_request_is_token show ?thesis by blast
qed

theorem getToken_refresh_witness:
  "tokenData cached_client = Some \<lparr>token = ''cached-token'', expiresAt = 2000000\<rparr>
   \<and> (2000000::int) - 300000 \<le> now late_world
   \<and> fetch (idp granting_net) (token_request cached_client) late_world
       = (Inr \<lparr>status = 200, body_text = ''{...}'',
               json = Inr \<lparr>access_token = ''new-token'', expires_in = 5000,
                           token_type = ''bearer''\<rparr>\<rparr>,
          \<lparr>now = 1900040, sent = [token_request cached_client]\<rparr>)
   \<and> getToken (idp granting_net) cached_client late_world
       = (Inr ''new-token'',
          cached_client\<lparr>tokenData := Some \<lparr>token = ''new-token'', expiresAt = 6900040\<rparr>\<rparr>,
          \<lparr>now = 1900040, sent = [token_request cached_client]\<rparr>)
   \<and> sent (snd (snd (getToken (idp granting_net) cached_client late_world)))
       = [token_request cached_client]
   \<and> tokenData fresh_client = None
   \<and> sent (snd (snd (getToken (idp granting_net) fresh_client early_world)))
       = [token_request fresh_client]"
proof -
  let ?td = "\<lparr>token = ''cached-token'', expiresAt = 2000000\<rparr>"
  let ?resp = "\<lparr>status = 200, body_text = ''{...}'',
               json = Inr \<lparr>access_token = ''new-token'', expires_in = 5000,
                           token_type = ''bearer''\<rparr>\<rparr>"
  let ?w1 = "\<lparr>now = 1900040, sent = [token_request cached_client]\<rparr>"
  have h1: "tokenData cached_client = Some ?td" by (simp add: cached_client_def)
  have h2: "expiresAt ?td - 300000 \<le> now late_world" by (simp add: late_world_def)
  have stale: "tokenData cached_client = None
      \<or> (\<exists>td. tokenData cached_client = Some td \<and> expiresAt td - 300000 \<le> now late_world)"
    using h1 h2 by blast
  have f: "fetch (idp granting_net) (token_request cached_client) late_world = (Inr ?resp, ?w1)"
    by (simp add: fetch_def granting_net_def granting_idp_def late_world_def)
  have okr: "ok ?resp" by (simp add: ok_def)
  have js: "json ?resp = Inr \<lparr>access_token = ''new-token'', expires_in = 5000,
                           token_type = ''bearer''\<rparr>" by simp
  note main = getToken_refresh[OF stale, of granting_net]
  from main have
    "sent (snd (snd (getToken (idp granting_net) cached_client late_world)))
       = sent late_world @ [token_request cached_client]"
    by blast
  moreover from main f okr js have
    "getToken (idp granting_net) cached_client late_world
       = (Inr ''new-token'',
          cached_client\<lparr>tokenData := Some \<lparr>token = ''new-token'', expiresAt = 6900040\<rparr>\<rparr>,
          ?w1)"
    by fastforce
  moreover have none: "tokenData fresh_client = None" by (simp add: fresh_client_def)
  moreover from none have "tokenData fresh_client = None
      \<or> (\<exists>td. tokenData fresh_client = Some td \<and> expiresAt td - 300000 \<le> now early_world)"
    by blast
  from getToken_refresh[OF this, of granting_net] have
    "sent (snd (snd (getToken (idp granting_net) fresh_client early_world)))
       = sent early_world @ [token_request fresh_client]"
    by blast
  ultimately show ?thesis using h1 f by (simp add: late_world_def early_world_def)
qed

text \<open>
  C3.  When the identity provider answers the token request with a status outside 200..299,
  \<open>getToken\<close> fails with the authentication error, whose message is
  \<open>Failed to authenticate with Twitch: <status> <body text>\<close> and so contains both the
  status and the body text, and the client, with its cached credential, is exactly as it
  was before the call.
\<close>

theorem getToken_rejected:
  assumes "tokenData c = None \<or> (\<exists>td. tokenData c = Some td \<and> expiresAt td - 300000 \<le> now w)"
    and "fetch remote (token_request c) w = (Inr resp, w1)"
    and "\<not> ok resp"
  shows "\<exists>msg. getToken remote c w = (Inl (Error msg), c, w1)
           \<and> msg = ''Failed to authenticate with Twitch: '' @ numToString (status resp)
                     @ '' '' @ body_text resp
           \<and> sublist (numToString (status resp)) msg \<and> sublist (body_text resp) msg
           \<and> tokenData (fst (snd (getToken remote c w))) = tokenData c"
proof -
  from assms(1) have nv: "\<not> cached_valid c w" by (rule stale_not_valid)
  let ?msg = "''Failed to authenticate with Twitch: '' @ numToString (status resp)
                @ '' '' @ body_text resp"
  have g: "getToken remote c w = (Inl (Error ?msg), c, w1)"
    using nv assms(2,3) by (simp add: getToken_def fetch_new_token_def)
  have s1: "sublist (numToString (status resp)) ?msg"
    by (rule sublist_appendI)
  have s2: "sublist (body_text resp) ?msg"
    using sublist_appendI[of "body_text resp"
        "''Failed to authenticate with Twitch: '' @ numToString (status resp) @ '' ''" "[]"]
    by simp
  from g s1 s2 show ?thesis by simp
qed

theorem getToken_rejected_witness:
  "tokenData cached_client = Some \<lparr>token = ''cached-token'', expiresAt = 2000000\<rparr>
   \<and> (2000000::int) - 300000 \<le> now late_world
   \<and> fetch rejecting_idp (token_request cached_client) late_world
       = (Inr \<lparr>status = 401, body_text = ''invalid_client'',
               json = Inl (Error ''Unexpected token i in JSON at position 0'')\<rparr>,
          \<lparr>now = 1900040, sent = [token_request cached_client]\<rparr>)
   \<and> getToken rejecting_idp cached_client late_world
       = (Inl (Error ''Failed to authenticate with Twitch: 401 invalid_client''),
          cached_client, \<lparr>now = 1900040, sent = [token_request cached_client]\<rparr>)
   \<and> sublist ''401'' ''Failed to authenticate with Twitch: 401 invalid_client''
   \<and> sublist ''invalid_client'' ''Failed to authenticate with Twitch: 401 invalid_client''
   \<and> tokenData (fst (snd (getToken rejecting_idp cached_client late_world)))
       = Some \<lparr>token = ''cached-token'', expiresAt = 2000000\<rparr>"
proof -
  let ?td = "\<lparr>token = ''cached-token'', expiresAt = 2000000\<rparr>"
  let ?resp = "\<lparr>status = 401, body_text = ''invalid_client'',
               json = Inl (Error ''Unexpected token i in JSON at position 0'')
                 :: js_error + OAuthToken\<rparr>"
  let ?w1 = "\<lparr>now = 1900040, sent = [token_request cached_client]\<rparr>"
  have h1: "tokenData cached_client = Some ?td" by (simp add: cached_client_def)
  have h2: "expiresAt ?td - 300000 \<le> now late_world" by (simp add: late_world_def)
  have stale: "tokenData cached_client = None
      \<or> (\<exists>td. tokenData cached_client = Some td \<and> expiresAt td - 300000 \<le> now late_world)"
    using h1 h2 by blast
  have f: "fetch rejecting_idp (token_request cached_client) late_world = (Inr ?resp, ?w1)"
    by (simp add: fetch_def rejecting_idp_def late_world_def)
  have nok: "\<not> ok ?resp" by (simp add: ok_def)
  from getToken_rejected[OF stale f nok] show ?thesis
    using h1 f by (simp add: numToString_401 late_world_def)
qed

section \<open>The two operations\<close>

text \<open>
  What \<open>searchGames(q, n)\<close> does guarantee.  The body it sends is the fixed text with
  two holes.  The first holds \<open>q\<close> with every double quote replaced by backslash, double
  quote and every other character kept, so that each double quote in it directly follows a
  backslash; the second holds the decimal form of \<open>n\<close>.  The field projection is fixed,
  the limit clause is \<open>limit n;\<close> for the very \<open>n\<close> the caller gave (bodies for different
  limits differ), and this body is the one of the data request that is issued.
\<close>

theorem searchGames_body:
  "search_body q n =
     [newline] @ ''      search '' @ [dquote] @ replace_dquotes q @ [dquote] @ '';'' @
     [newline] @ ''      fields name, summary, rating, aggregated_rating,'' @
     [newline] @ ''             genres.name, platforms.name,'' @
     [newline] @ ''             first_release_date, cover.url,'' @
     [newline] @ ''             involved_companies.company.name;'' @
     [newline] @ ''      limit '' @ numToString n @ '';'' @
     [newline] @ ''    ''
   \<and> replace_dquotes q
       = concat (map (\<lambda>ch. if ch = dquote then [backslash, dquote] else [ch]) q)
   \<and> (\<forall>i < length (replace_dquotes q). replace_dquotes q ! i = dquote \<longrightarrow>
         0 < i \<and> replace_dquotes q ! (i - 1) = backslash)
   \<and> sublist (''search '' @ [dquote] @ replace_dquotes q @ [dquote] @ '';'') (search_body q n)
   \<and> sublist (''limit '' @ numToString n @ '';'') (search_body q n)
   \<and> (\<forall>m. search_body q m = search_body q n \<longrightarrow> m = n)
   \<and> searchGames net c w q (Some n) = request net c w ''games'' (search_body q n)
   \<and> (\<forall>tok c1 w1. getToken (idp net) c w = (Inr tok, c1, w1) \<longrightarrow>
         sent (snd (snd (searchGames net c w q (Some n))))
           = sent w1 @ [api_request c1 tok ''games'' (search_body q n)]
         \<and> body (api_request c1 tok ''games'' (search_body q n)) = Some (search_body q n))"
proof -
  have srch: "sublist (''search '' @ [dquote] @ replace_dquotes q @ [dquote] @ '';'')
                (search_body q n)"
    unfolding search_body_def sublist_def
    by (rule exI[of _ "[newline] @ ''      ''"],
        rule exI[of _ "[newline] @ ''      fields name, summary, rating, aggregated_rating,'' @
     [newline] @ ''             genres.name, platforms.name,'' @
     [newline] @ ''             first_release_date, cover.url,'' @
     [newline] @ ''             involved_companies.company.name;'' @
     [newline] @ ''      limit '' @ numToString n @ '';'' @
     [newline] @ ''    ''"]) simp
  have lim: "sublist (''limit '' @ numToString n @ '';'') (search_body q n)"
    unfolding search_body_def sublist_def
    by (rule exI[of _ "[newline] @ ''      search '' @ [dquote] @ replace_dquotes q
       @ [dquote] @ '';'' @
     [newline] @ ''      fields name, summary, rating, aggregated_rating,'' @
     [newline] @ ''             genres.name, platforms.name,'' @
     [newline] @ ''             first_release_date, cover.url,'' @
     [newline] @ ''             involved_companies.company.name;'' @
     [newline] @ ''      ''"], rule exI[of _ "[newline] @ ''    ''"]) simp
  have inj: "\<forall>m. search_body q m = search_body q n \<longrightarrow> m = n"
    using search_body_inj by blast
  have esc: "\<forall>i < length (replace_dquotes q). replace_dquotes q ! i = dquote \<longrightarrow>
         0 < i \<and> replace_dquotes q ! (i - 1) = backslash"
    using replace_dquotes_escaped by blast
  have sg: "searchGames net c w q (Some n) = request net c w ''games'' (search_body q n)"
    by (simp add: searchGames_def)
  have wire: "\<forall>tok c1 w1. getToken (idp net) c w = (Inr tok, c1, w1) \<longrightarrow>
         sent (snd (snd (searchGames net c w q (Some n))))
           = sent w1 @ [api_request c1 tok ''games'' (search_body q n)]
         \<and> body (api_request c1 tok ''games'' (search_body q n)) = Some (search_body q n)"
    by (simp add: sg request_after_token api_request_def)
  have shape: "search_body q n =
     [newline] @ ''      search '' @ [dquote] @ replace_dquotes q @ [dquote] @ '';'' @
     [newline] @ ''      fields name, summary, rating, aggregated_rating,'' @
     [newline] @ ''             genres.name, platforms.name,'' @
     [newline] @ ''             first_release_date, cover.url,'' @
     [newline] @ ''             involved_companies.company.name;'' @
     [newline] @ ''      limit '' @ numToString n @ '';'' @
     [newline] @ ''    ''"
    by (simp add: search_body_def)
  from shape replace_dquotes_concat[of q] esc srch lim inj sg wire show ?thesis
    by blast
qed

theorem searchGames_body_witness:
  "replace_dquotes (''say '' @ [dquote] @ ''hi'' @ [dquote])
     = ''say '' @ [backslash, dquote] @ ''hi'' @ [backslash, dquote]
   \<and> sublist ''limit 500;'' (search_body (''say '' @ [dquote] @ ''hi'' @ [dquote]) 500)
   \<and> getToken (idp granting_net) cached_client early_world
       = (Inr ''cached-token'', cached_client, early_world)
   \<and> sent (snd (snd (searchGames granting_net cached_client early_world
                        (''say '' @ [dquote] @ ''hi'' @ [dquote]) (Some 500))))
       = [api_request cached_client ''cached-token'' ''games''
            (search_body (''say '' @ [dquote] @ ''hi'' @ [dquote]) 500)]"
proof -
  let ?q = "''say '' @ [dquote] @ ''hi'' @ [dquote]"
  note main = searchGames_body[of ?q 500 granting_net cached_client early_world]
  have g: "getToken (idp granting_net) cached_client early_world
             = (Inr ''cached-token'', cached_client, early_world)"
    by (simp add: getToken_def cached_valid_def cached_client_def early_world_def)
  from main have "replace_dquotes ?q
       = concat (map (\<lambda>ch. if ch = dquote then [backslash, dquote] else [ch]) ?q)"
    by blast
  then have r: "replace_dquotes ?q = ''say '' @ [backslash, dquote] @ ''hi'' @ [backslash, dquote]"
    by simp
  from main have "sublist (''limit '' @ numToString 500 @ '';'') (search_body ?q 500)"
    by blast
  then have l: "sublist ''limit 500;'' (search_body ?q 500)"
    by (simp add: numToString_500)
  from main g have "sent (snd (snd (searchGames granting_net cached_client early_world ?q (Some 500))))
           = sent early_world @ [api_request cached_client ''cached-token'' ''games'' (search_body ?q 500)]"
    by blast
  then have s: "sent (snd (snd (searchGames granting_net cached_client early_world ?q (Some 500))))
           = [api_request cached_client ''cached-token'' ''games'' (search_body ?q 500)]"
    by (simp add: early_world_def)
  from r l g s show ?thesis by blast
qed

text \<open>Only double quotes are rewritten: a backslash of the query is copied as it is, so
  a query that is a single backslash puts it directly before the closing quote.\<close>

lemma search_body_backslash_query:
  "replace_dquotes [backslash] = [backslash]
   \<and> sublist (''search '' @ [dquote, backslash, dquote] @ '';'') (search_body [backslash] n)"
proof -
  have "sublist (''search '' @ [dquote] @ replace_dquotes [backslash] @ [dquote] @ '';'')
          (search_body [backslash] n)"
    unfolding search_body_def sublist_def
    by (rule exI[of _ "[newline] @ ''      ''"],
        rule exI[of _ "[newline] @ ''      fields name, summary, rating, aggregated_rating,'' @
     [newline] @ ''             genres.name, platforms.name,'' @
     [newline] @ ''             first_release_date, cover.url,'' @
     [newline] @ ''             involved_companies.company.name;'' @
     [newline] @ ''      limit '' @ numToString n @ '';'' @
     [newline] @ ''    ''"]) simp
  then show ?thesis by simp
qed

text \<open>
  C4.  The claim asks that, for every query \<open>q\<close>, the body carries \<open>q\<close> with its double
  quotes escaped so that the string literal of the \<open>search\<close> clause remains well-formed,
  together with the fixed projection and the caller's limit.  The escaping of double
  quotes, the projection and the limit are as claimed, and for a query without a backslash
  the literal the service reads is the escaped query, followed by the rest of the body
  (\<open>search_literal_intact\<close>).  For a query with a backslash the code misses it, because
  backslashes are not escaped.  For the query that is one backslash, the request that is
  sent has a literal that is never closed: its closing quote is read as an escaped quote.
  For the query backslash, double quote, \<open>; limit 500; x\<close>, the literal that is read is
  only the two backslashes, and \<open>; limit 500; x\<close> stands outside it as text of the query
  document.
\<close>

theorem searchGames_literal_backslash:
  "sent (snd (snd (searchGames granting_net cached_client early_world [backslash] (Some 10))))
     = [api_request cached_client ''cached-token'' ''games'' (search_body [backslash] 10)]
   \<and> search_literal [backslash] 10 = None
   \<and> search_literal ([backslash, dquote] @ ''; limit 500; x'') 10
       = Some ([backslash, backslash], ''; limit 500; x'' @ [dquote] @ after_literal 10)
   \<and> search_literal ([backslash, dquote] @ ''; limit 500; x'') 10
       \<noteq> Some (replace_dquotes ([backslash, dquote] @ ''; limit 500; x''), after_literal 10)"
proof -
  have wire: "sent (snd (snd (searchGames granting_net cached_client early_world [backslash]
                               (Some 10))))
     = [api_request cached_client ''cached-token'' ''games'' (search_body [backslash] 10)]"
    using request_after_token[OF getToken_cached_early[of granting_net]]
    by (simp add: searchGames_def early_world_def)
  have open_literal: "search_literal [backslash] 10 = None"
    by code_simp
  have breakout: "search_literal ([backslash, dquote] @ ''; limit 500; x'') 10
       = Some ([backslash, backslash], ''; limit 500; x'' @ [dquote] @ after_literal 10)"
    by code_simp
  have differs: "search_literal ([backslash, dquote] @ ''; limit 500; x'') 10
       \<noteq> Some (replace_dquotes ([backslash, dquote] @ ''; limit 500; x''), after_literal 10)"
    by (subst breakout) simp
  from wire open_literal breakout differs show ?thesis by blast
qed

text \<open>
  C5.  When the data service answers the request of \<open>getGameDetails(id)\<close> with a success
  status and a JSON array of records, the operation returns absent (\<open>null\<close>, not an error)
  for the empty array and the first record otherwise, whatever records follow it.
\<close>

theorem getGameDetails_first_or_absent:
  assumes "getToken (idp net) c w = (Inr tok, c1, w1)"
      and "fetch (api net) (api_request c1 tok ''games'' (details_body gameId)) w1 = (Inr resp, w2)"
      and "ok resp" and "json resp = Inr games"
  shows "getGameDetails net c w gameId
           = (Inr (case games of [] \<Rightarrow> None | g # later \<Rightarrow> Some g), c1, w2)"
  using assms by (cases games) (simp_all add: getGameDetails_def request_def)

theorem getGameDetails_first_or_absent_witness:
  "getToken (idp two_games_net) cached_client early_world
     = (Inr ''cached-token'', cached_client, early_world)
   \<and> fetch (api two_games_net)
        (api_request cached_client ''cached-token'' ''games'' (details_body 1920)) early_world
     = (Inr \<lparr>status = 200, body_text = ''[...]'',
             json = Inr [bare_game 1920 ''Final Fantasy Tactics'', bare_game 7 ''Other'']\<rparr>,
        \<lparr>now = 1000025,
         sent = [api_request cached_client ''cached-token'' ''games'' (details_body 1920)]\<rparr>)
   \<and> getGameDetails two_games_net cached_client early_world 1920
     = (Inr (Some (bare_game 1920 ''Final Fantasy Tactics'')), cached_client,
        \<lparr>now = 1000025,
         sent = [api_request cached_client ''cached-token'' ''games'' (details_body 1920)]\<rparr>)
   \<and> getGameDetails granting_net cached_client early_world 1920
     = (Inr None, cached_client,
        \<lparr>now = 1000025,
         sent = [api_request cached_client ''cached-token'' ''games'' (details_body 1920)]\<rparr>)"
proof -
  let ?req = "api_request cached_client ''cached-token'' ''games'' (details_body 1920)"
  let ?w2 = "\<lparr>now = 1000025, sent = [?req]\<rparr>"
  let ?two = "[bare_game 1920 ''Final Fantasy Tactics'', bare_game 7 ''Other'']"
  have g2: "getToken (idp two_games_net) cached_client early_world
             = (Inr ''cached-token'', cached_client, early_world)"
    by (simp add: getToken_def cached_valid_def cached_client_def early_world_def)
  have g0: "getToken (idp granting_net) cached_client early_world
             = (Inr ''cached-token'', cached_client, early_world)"
    by (simp add: getToken_def cached_valid_def cached_client_def early_world_def)
  have f2: "fetch (api two_games_net) ?req early_world
     = (Inr \<lparr>status = 200, body_text = ''[...]'', json = Inr ?two\<rparr>, ?w2)"
    by (simp add: fetch_def two_games_net_def api_returning_def early_world_def)
  have f0: "fetch (api granting_net) ?req early_world
     = (Inr \<lparr>status = 200, body_text = ''[...]'', json = Inr []\<rparr>, ?w2)"
    by (simp add: fetch_def granting_net_def api_returning_def early_world_def)
  have r2: "getGameDetails two_games_net cached_client early_world 1920
     = (Inr (Some (bare_game 1920 ''Final Fantasy Tactics'')), cached_client, ?w2)"
    using getGameDetails_first_or_absent[OF g2 f2] by (simp add: ok_def)
  have r0: "getGameDetails granting_net cached_client early_world 1920
     = (Inr None, cached_client, ?w2)"
    using getGameDetails_first_or_absent[OF g0 f0] by (simp add: ok_def)
  from g2 f2 r2 r0 show ?thesis by blast
qed

section \<open>The tool-call handler\<close>

text \<open>
  C8.  A \<open>search_games\<close> call whose \<open>query\<close> argument is absent (no arguments object, or
  one without \<open>query\<close>) gets the error-marked result with the text
  \<open>Error: query parameter is required\<close>; the client and the world are returned unchanged,
  so \<open>searchGames\<close> has not run and neither a token request nor a data request was issued.
\<close>

theorem search_games_requires_query:
  assumes "args = None \<or> (\<exists>a. args = Some a \<and> query a = None)"
  shows "handler rt net c w ''search_games'' args
           = (error_result ''Error: query parameter is required'', c, w)
       \<and> isError (fst (handler rt net c w ''search_games'' args)) = Some True
       \<and> result_texts (fst (handler rt net c w ''search_games'' args))
           = [''Error: query parameter is required'']
       \<and> sent (snd (snd (handler rt net c w ''search_games'' args))) = sent w"
proof -
  from assms have "opt_field args query = None" by (auto simp: opt_field_def)
  then have "handler rt net c w ''search_games'' args
           = (error_result ''Error: query parameter is required'', c, w)"
    by (simp add: handler_search_games truthy_string_def)
  then show ?thesis by (simp add: error_result_def result_texts_def)
qed

theorem search_games_requires_query_witness:
  "handler scenario_runtime rejecting_net fresh_client early_world ''search_games''
      (Some \<lparr>query = None, limit = Some 5, game_id = None\<rparr>)
     = (\<lparr>content = [TextContent ''Error: query parameter is required''], isError = Some True\<rparr>,
        fresh_client, early_world)
   \<and> handler scenario_runtime rejecting_net fresh_client early_world ''search_games'' None
     = (\<lparr>content = [TextContent ''Error: query parameter is required''], isError = Some True\<rparr>,
        fresh_client, early_world)
   \<and> sent (snd (snd (handler scenario_runtime rejecting_net fresh_client early_world
                        ''search_games'' None))) = []"
proof -
  have a1: "Some \<lparr>query = None, limit = Some 5, game_id = None\<rparr> = None
     \<or> (\<exists>a. Some \<lparr>query = None, limit = Some 5, game_id = None\<rparr> = Some a \<and> query a = None)"
    by simp
  have a2: "(None :: tool_args option) = None \<or> (\<exists>a. None = Some a \<and> query a = None)"
    by simp
  from search_games_requires_query[OF a1, of scenario_runtime rejecting_net fresh_client early_world]
       search_games_requires_query[OF a2, of scenario_runtime rejecting_net fresh_client early_world]
  show ?thesis by (simp add: error_result_def early_world_def)
qed

text \<open>
  C10.  A \<open>get_game_details\<close> call whose \<open>game_id\<close> is the number 0 gets the error-marked
  result with the text \<open>Error: game_id parameter is required\<close>, the same outcome as a call
  without \<open>game_id\<close>; \<open>getGameDetails\<close> does not run and nothing is sent, so the game
  with id 0 cannot be looked up through the tool.
\<close>

theorem get_game_details_id_zero:
  assumes "args = Some a" and "game_id a = Some 0"
  shows "handler rt net c w ''get_game_details'' args
           = (error_result ''Error: game_id parameter is required'', c, w)
       \<and> handler rt net c w ''get_game_details'' args
           = handler rt net c w ''get_game_details'' (Some (a\<lparr>game_id := None\<rparr>))
       \<and> handler rt net c w ''get_game_details'' args
           = handler rt net c w ''get_game_details'' None
       \<and> isError (fst (handler rt net c w ''get_game_details'' args)) = Some True
       \<and> result_texts (fst (handler rt net c w ''get_game_details'' args))
           = [''Error: game_id parameter is required'']
       \<and> sent (snd (snd (handler rt net c w ''get_game_details'' args))) = sent w"
  using assms
  by (simp add: handler_get_game_details truthy_number_def opt_field_def error_result_def
        result_texts_def)

theorem get_game_details_id_zero_witness:
  "game_id \<lparr>query = None, limit = None, game_id = Some 0\<rparr> = Some 0
   \<and> handler scenario_runtime two_games_net cached_client early_world ''get_game_details''
       (Some \<lparr>query = None, limit = None, game_id = Some 0\<rparr>)
     = (\<lparr>content = [TextContent ''Error: game_id parameter is required''], isError = Some True\<rparr>,
        cached_client, early_world)
   \<and> handler scenario_runtime two_games_net cached_client early_world ''get_game_details'' None
     = (\<lparr>content = [TextContent ''Error: game_id parameter is required''], isError = Some True\<rparr>,
        cached_client, early_world)"
proof -
  have h: "game_id \<lparr>query = None, limit = None, game_id = Some 0\<rparr> = Some 0" by simp
  note main = get_game_details_id_zero[OF refl h, of scenario_runtime two_games_net
      cached_client early_world]
  from main have a: "handler scenario_runtime two_games_net cached_client early_world
       ''get_game_details'' (Some \<lparr>query = None, limit = None, game_id = Some 0\<rparr>)
     = (error_result ''Error: game_id parameter is required'', cached_client, early_world)"
    by blast
  from main have b: "handler scenario_runtime two_games_net cached_client early_world
       ''get_game_details'' (Some \<lparr>query = None, limit = None, game_id = Some 0\<rparr>)
     = handler scenario_runtime two_games_net cached_client early_world
         ''get_game_details'' None"
    by blast
  from a b[symmetric] h show ?thesis by (simp add: error_result_def)
qed

text \<open>
  C7 (as amended).  A \<open>search_games\<close> call with a non-empty query runs \<open>searchGames\<close> with
  the limit \<open>Math.min(limit || 10, 50)\<close>, and that limit is the one in the body of the data
  request: the caller's limit when it is not zero and at most 50, 50 when the caller's
  limit is larger, and the default 10 when the limit argument is absent or is 0.
\<close>

theorem search_games_limit:
  assumes "opt_field args query = Some q" and "q \<noteq> []"
  shows "snd (handler rt net c w ''search_games'' args)
           = snd (searchGames net c w q (Some (search_limit args)))
       \<and> (\<forall>tok c1 w1. getToken (idp net) c w = (Inr tok, c1, w1) \<longrightarrow>
             sent (snd (snd (handler rt net c w ''search_games'' args)))
               = sent w1 @ [api_request c1 tok ''games'' (search_body q (search_limit args))])
       \<and> (opt_field args limit = None \<longrightarrow> search_limit args = 10)
       \<and> (\<forall>l. opt_field args limit = Some l \<and> l \<noteq> 0 \<and> l \<le> 50 \<longrightarrow> search_limit args = l)
       \<and> (\<forall>l. opt_field args limit = Some l \<and> 50 < l \<longrightarrow> search_limit args = 50)
       \<and> (opt_field args limit = Some 0 \<longrightarrow> search_limit args = 10)"
proof -
  have eff: "snd (handler rt net c w ''search_games'' args)
           = snd (searchGames net c w q (Some (search_limit args)))"
    using assms
    by (auto simp: handler_search_games truthy_string_def split: prod.splits sum.splits)
  have wire: "\<forall>tok c1 w1. getToken (idp net) c w = (Inr tok, c1, w1) \<longrightarrow>
             sent (snd (snd (handler rt net c w ''search_games'' args)))
               = sent w1 @ [api_request c1 tok ''games'' (search_body q (search_limit args))]"
    by (simp add: eff searchGames_def request_after_token)
  from eff wire show ?thesis by (simp add: search_limit_cases)
qed

theorem search_games_limit_witness:
  "opt_field (Some \<lparr>query = Some ''zelda'', limit = Some 200, game_id = None\<rparr>) query
     = Some ''zelda''
   \<and> ''zelda'' \<noteq> []
   \<and> search_limit (Some \<lparr>query = Some ''zelda'', limit = Some 200, game_id = None\<rparr>) = 50
   \<and> search_limit (Some \<lparr>query = Some ''zelda'', limit = Some 25, game_id = None\<rparr>) = 25
   \<and> search_limit (Some \<lparr>query = Some ''zelda'', limit = None, game_id = None\<rparr>) = 10
   \<and> sent (snd (snd (handler scenario_runtime granting_net cached_client early_world
                        ''search_games''
                        (Some \<lparr>query = Some ''zelda'', limit = Some 200, game_id = None\<rparr>))))
       = [api_request cached_client ''cached-token'' ''games'' (search_body ''zelda'' 50)]"
proof -
  let ?args = "Some \<lparr>query = Some ''zelda'', limit = Some 200, game_id = None\<rparr>"
  let ?argsMid = "Some \<lparr>query = Some ''zelda'', limit = Some 25, game_id = None\<rparr>"
  let ?argsNone = "Some \<lparr>query = Some ''zelda'', limit = None, game_id = None\<rparr>"
  have h1: "opt_field ?args query = Some ''zelda''" by (simp add: opt_field_def)
  have h1': "opt_field ?argsMid query = Some ''zelda''" by (simp add: opt_field_def)
  have h1'': "opt_field ?argsNone query = Some ''zelda''" by (simp add: opt_field_def)
  have h2: "''zelda'' \<noteq> []" by simp
  have l: "opt_field ?args limit = Some 200 \<and> (50::int) < 200" by (simp add: opt_field_def)
  have l': "opt_field ?argsMid limit = Some 25 \<and> (25::int) \<noteq> 0 \<and> (25::int) \<le> 50"
    by (simp add: opt_field_def)
  have l'': "opt_field ?argsNone limit = None" by (simp add: opt_field_def)
  note main = search_games_limit[OF h1 h2, of scenario_runtime granting_net cached_client
      early_world]
  from main l have fifty: "search_limit ?args = 50" by blast
  from search_games_limit[OF h1' h2, of scenario_runtime granting_net cached_client early_world]
       l'
  have given: "search_limit ?argsMid = 25" by blast
  from search_games_limit[OF h1'' h2, of scenario_runtime granting_net cached_client early_world]
       l''
  have dflt: "search_limit ?argsNone = 10" by blast
  from main getToken_cached_early[of granting_net]
  have "sent (snd (snd (handler scenario_runtime granting_net cached_client early_world
                        ''search_games'' ?args)))
       = sent early_world
         @ [api_request cached_client ''cached-token'' ''games''
              (search_body ''zelda'' (search_limit ?args))]"
    by blast
  with fifty given dflt h1 show ?thesis by (simp add: early_world_def)
qed

text \<open>The claim as first stated (the caller's limit is passed on whenever it is at most 50)
  fails for the limit 0: the request that is issued asks for 10 results.\<close>

theorem search_games_limit_zero_counterexample:
  "opt_field (Some \<lparr>query = Some ''zelda'', limit = Some 0, game_id = None\<rparr>) limit = Some 0
   \<and> (0::int) \<le> 50
   \<and> sent (snd (snd (handler scenario_runtime granting_net cached_client early_world
                        ''search_games''
                        (Some \<lparr>query = Some ''zelda'', limit = Some 0, game_id = None\<rparr>))))
       = [api_request cached_client ''cached-token'' ''games'' (search_body ''zelda'' 10)]
   \<and> search_body ''zelda'' 10 \<noteq> search_body ''zelda'' 0"
proof -
  let ?args = "Some \<lparr>query = Some ''zelda'', limit = Some 0, game_id = None\<rparr>"
  have l: "search_limit ?args = 10"
    by (simp add: search_limit_cases opt_field_def)
  have "snd (handler scenario_runtime granting_net cached_client early_world
               ''search_games'' ?args)
          = snd (searchGames granting_net cached_client early_world ''zelda'' (Some 10))"
    by (auto simp: handler_search_games truthy_string_def opt_field_def l
             split: prod.splits sum.splits)
  then have s: "sent (snd (snd (handler scenario_runtime granting_net cached_client early_world
                        ''search_games'' ?args)))
       = [api_request cached_client ''cached-token'' ''games'' (search_body ''zelda'' 10)]"
    using request_after_token[OF getToken_cached_early[of granting_net]]
    by (simp add: searchGames_def early_world_def)
  have d: "search_body ''zelda'' 10 \<noteq> search_body ''zelda'' 0"
    using search_body_inj[of "''zelda''" 10 0] by auto
  from s d show ?thesis by (simp add: opt_field_def)
qed

text \<open>
  C6 (as amended).  For the two tools the server offers, every error-marked result has a
  text that begins with \<open>Error: \<close>: it is either the message that a required argument is
  missing, or \<open>Error: \<close> followed by the message of the error the client operation threw.
  A search that finds nothing and a lookup that finds no game give a result that is not
  marked as an error.  A call that names any other tool gives an error-marked result
  whose text is \<open>Unknown tool: <name>\<close>.
\<close>

theorem handler_error_results:
  "((tool = ''search_games'' \<or> tool = ''get_game_details'')
      \<longrightarrow> isError (fst (handler rt net c w tool args)) = Some True
      \<longrightarrow> (\<exists>m. result_texts (fst (handler rt net c w tool args)) = [''Error: '' @ m]))
   \<and> (\<forall>q e c1 w1.
         opt_field args query = Some q \<and> q \<noteq> []
         \<and> searchGames net c w q (Some (search_limit args)) = (Inl e, c1, w1)
         \<longrightarrow> handler rt net c w ''search_games'' args
               = (error_result (''Error: '' @ message e), c1, w1))
   \<and> (\<forall>g e c1 w1.
         opt_field args game_id = Some g \<and> g \<noteq> 0
         \<and> getGameDetails net c w g = (Inl e, c1, w1)
         \<longrightarrow> handler rt net c w ''get_game_details'' args
               = (error_result (''Error: '' @ message e), c1, w1))
   \<and> (\<forall>q c1 w1.
         opt_field args query = Some q \<and> q \<noteq> []
         \<and> searchGames net c w q (Some (search_limit args)) = (Inr [], c1, w1)
         \<longrightarrow> handler rt net c w ''search_games'' args
               = (text_result (''No games found matching '' @ [dquote] @ q @ [dquote]), c1, w1)
             \<and> isError (fst (handler rt net c w ''search_games'' args)) = None)
   \<and> (\<forall>g c1 w1.
         opt_field args game_id = Some g \<and> g \<noteq> 0
         \<and> getGameDetails net c w g = (Inr None, c1, w1)
         \<longrightarrow> handler rt net c w ''get_game_details'' args
               = (text_result (''No game found with ID '' @ numToString g), c1, w1)
             \<and> isError (fst (handler rt net c w ''get_game_details'' args)) = None)
   \<and> (tool \<noteq> ''search_games'' \<and> tool \<noteq> ''get_game_details''
        \<longrightarrow> handler rt net c w tool args = (error_result (''Unknown tool: '' @ tool), c, w))"
proof -
  have known_search:
    "isError (fst (handler rt net c w ''search_games'' args)) = Some True
       \<Longrightarrow> \<exists>m. result_texts (fst (handler rt net c w ''search_games'' args)) = [''Error: '' @ m]"
    by (auto simp: handler_search_games error_result_def text_result_def catch_block_def
          result_texts_def split: prod.splits sum.splits if_splits)
  have known_details:
    "isError (fst (handler rt net c w ''get_game_details'' args)) = Some True
       \<Longrightarrow> \<exists>m. result_texts (fst (handler rt net c w ''get_game_details'' args))
               = [''Error: '' @ m]"
    by (auto simp: handler_get_game_details error_result_def text_result_def catch_block_def
          result_texts_def split: prod.splits sum.splits option.splits if_splits)
  have K: "(tool = ''search_games'' \<or> tool = ''get_game_details'')
      \<longrightarrow> isError (fst (handler rt net c w tool args)) = Some True
      \<longrightarrow> (\<exists>m. result_texts (fst (handler rt net c w tool args)) = [''Error: '' @ m])"
    using known_search known_details by blast
  have TS: "\<forall>q e c1 w1.
         opt_field args query = Some q \<and> q \<noteq> []
         \<and> searchGames net c w q (Some (search_limit args)) = (Inl e, c1, w1)
         \<longrightarrow> handler rt net c w ''search_games'' args
               = (error_result (''Error: '' @ message e), c1, w1)"
    by (simp add: handler_search_games truthy_string_def catch_block_def)
  have TD: "\<forall>g e c1 w1.
         opt_field args game_id = Some g \<and> g \<noteq> 0
         \<and> getGameDetails net c w g = (Inl e, c1, w1)
         \<longrightarrow> handler rt net c w ''get_game_details'' args
               = (error_result (''Error: '' @ message e), c1, w1)"
    by (simp add: handler_get_game_details truthy_number_def catch_block_def)
  have ZS: "\<forall>q c1 w1.
         opt_field args query = Some q \<and> q \<noteq> []
         \<and> searchGames net c w q (Some (search_limit args)) = (Inr [], c1, w1)
         \<longrightarrow> handler rt net c w ''search_games'' args
               = (text_result (''No games found matching '' @ [dquote] @ q @ [dquote]), c1, w1)
             \<and> isError (fst (handler rt net c w ''search_games'' args)) = None"
    by (simp add: handler_search_games truthy_string_def text_result_def)
  have ZD: "\<forall>g c1 w1.
         opt_field args game_id = Some g \<and> g \<noteq> 0
         \<and> getGameDetails net c w g = (Inr None, c1, w1)
         \<longrightarrow> handler rt net c w ''get_game_details'' args
               = (text_result (''No game found with ID '' @ numToString g), c1, w1)
             \<and> isError (fst (handler rt net c w ''get_game_details'' args)) = None"
    by (simp add: handler_get_game_details truthy_number_def text_result_def)
  have U: "tool \<noteq> ''search_games'' \<and> tool \<noteq> ''get_game_details''
        \<longrightarrow> handler rt net c w tool args = (error_result (''Unknown tool: '' @ tool), c, w)"
    by (simp add: handler_unknown_tool)
  from K TS TD ZS ZD U show ?thesis by blast
qed

theorem handler_error_results_witness:
  "searchGames rejecting_net fresh_client early_world ''zelda'' (Some 10)
     = (Inl (Error ''Failed to authenticate with Twitch: 401 invalid_client''), fresh_client,
        \<lparr>now = 1000040, sent = [token_request fresh_client]\<rparr>)
   \<and> handler scenario_runtime rejecting_net fresh_client early_world ''search_games''
       (Some \<lparr>query = Some ''zelda'', limit = None, game_id = None\<rparr>)
     = (\<lparr>content = [TextContent ''Error: Failed to authenticate with Twitch: 401 invalid_client''],
         isError = Some True\<rparr>,
        fresh_client, \<lparr>now = 1000040, sent = [token_request fresh_client]\<rparr>)
   \<and> (\<exists>m. result_texts
              (fst (handler scenario_runtime rejecting_net fresh_client early_world
                      ''search_games''
                      (Some \<lparr>query = Some ''zelda'', limit = None, game_id = None\<rparr>)))
            = [''Error: '' @ m])
   \<and> searchGames granting_net cached_client early_world ''zelda'' (Some 10)
     = (Inr [], cached_client,
        \<lparr>now = 1000025,
         sent = [api_request cached_client ''cached-token'' ''games'' (search_body ''zelda'' 10)]\<rparr>)
   \<and> handler scenario_runtime granting_net cached_client early_world ''search_games''
       (Some \<lparr>query = Some ''zelda'', limit = None, game_id = None\<rparr>)
     = (\<lparr>content = [TextContent (''No games found matching '' @ [dquote] @ ''zelda'' @ [dquote])],
         isError = None\<rparr>,
        cached_client,
        \<lparr>now = 1000025,
         sent = [api_request cached_client ''cached-token'' ''games'' (search_body ''zelda'' 10)]\<rparr>)
   \<and> getGameDetails granting_net cached_client early_world 1920
     = (Inr None, cached_client,
        \<lparr>now = 1000025,
         sent = [api_request cached_client ''cached-token'' ''games'' (details_body 1920)]\<rparr>)
   \<and> handler scenario_runtime granting_net cached_client early_world ''get_game_details''
       (Some \<lparr>query = None, limit = None, game_id = Some 1920\<rparr>)
     = (\<lparr>content = [TextContent ''No game found with ID 1920''], isError = None\<rparr>,
        cached_client,
        \<lparr>now = 1000025,
         sent = [api_request cached_client ''cached-token'' ''games'' (details_body 1920)]\<rparr>)
   \<and> handler scenario_runtime granting_net cached_client early_world ''list_games'' None
     = (\<lparr>content = [TextContent ''Unknown tool: list_games''], isError = Some True\<rparr>,
        cached_client, early_world)"
proof -
  let ?args = "Some \<lparr>query = Some ''zelda'', limit = None, game_id = None\<rparr>"
  let ?dargs = "Some \<lparr>query = None, limit = None, game_id = Some 1920\<rparr>"
  let ?w1 = "\<lparr>now = 1000040, sent = [token_request fresh_client]\<rparr>"
  let ?w2 = "\<lparr>now = 1000025,
         sent = [api_request cached_client ''cached-token'' ''games'' (search_body ''zelda'' 10)]\<rparr>"
  let ?w3 = "\<lparr>now = 1000025,
         sent = [api_request cached_client ''cached-token'' ''games'' (details_body 1920)]\<rparr>"
  have q: "opt_field ?args query = Some ''zelda'' \<and> ''zelda'' \<noteq> []"
    by (simp add: opt_field_def)
  have g: "opt_field ?dargs game_id = Some 1920 \<and> (1920::int) \<noteq> 0"
    by (simp add: opt_field_def)
  have l: "search_limit ?args = 10" by (simp add: search_limit_cases opt_field_def)
  have thrown: "searchGames rejecting_net fresh_client early_world ''zelda'' (Some 10)
     = (Inl (Error ''Failed to authenticate with Twitch: 401 invalid_client''), fresh_client, ?w1)"
    by (simp add: searchGames_def request_def getToken_def cached_valid_def fresh_client_def
          fetch_new_token_def fetch_def rejecting_net_def rejecting_idp_def ok_def
          early_world_def numToString_401)
  have no_games: "searchGames granting_net cached_client early_world ''zelda'' (Some 10)
     = (Inr [], cached_client, ?w2)"
    unfolding searchGames_def request_def getToken_cached_early
    by (simp add: fetch_def granting_net_def api_returning_def ok_def early_world_def)
  have no_game: "getGameDetails granting_net cached_client early_world 1920
     = (Inr None, cached_client, ?w3)"
    unfolding getGameDetails_def request_def getToken_cached_early
    by (simp add: fetch_def granting_net_def api_returning_def ok_def early_world_def)
  note err = handler_error_results[of "''search_games''" scenario_runtime rejecting_net
      fresh_client early_world ?args]
  note zero = handler_error_results[of "''search_games''" scenario_runtime granting_net
      cached_client early_world ?args]
  note dzero = handler_error_results[of "''get_game_details''" scenario_runtime granting_net
      cached_client early_world ?dargs]
  note unknown = handler_error_results[of "''list_games''" scenario_runtime granting_net
      cached_client early_world None]
  from l thrown
  have thrown': "searchGames rejecting_net fresh_client early_world ''zelda''
                   (Some (search_limit ?args))
     = (Inl (Error ''Failed to authenticate with Twitch: 401 invalid_client''), fresh_client, ?w1)"
    by simp
  from err q thrown'
  have r1: "handler scenario_runtime rejecting_net fresh_client early_world ''search_games'' ?args
     = (error_result (''Error: '' @ message (Error ''Failed to authenticate with Twitch: 401 invalid_client'')),
        fresh_client, ?w1)"
    by blast
  then have "isError (fst (handler scenario_runtime rejecting_net fresh_client early_world
                             ''search_games'' ?args)) = Some True"
    by (simp add: error_result_def)
  with err
  have k: "\<exists>m. result_texts (fst (handler scenario_runtime rejecting_net fresh_client
                                      early_world ''search_games'' ?args)) = [''Error: '' @ m]"
    by blast
  from l no_games
  have no_games': "searchGames granting_net cached_client early_world ''zelda''
                    (Some (search_limit ?args)) = (Inr [], cached_client, ?w2)"
    by simp
  from zero q no_games'
  have r2: "handler scenario_runtime granting_net cached_client early_world ''search_games'' ?args
     = (text_result (''No games found matching '' @ [dquote] @ ''zelda'' @ [dquote]),
        cached_client, ?w2)"
    by blast
  from dzero g no_game
  have r3: "handler scenario_runtime granting_net cached_client early_world
              ''get_game_details'' ?dargs
     = (text_result (''No game found with ID '' @ numToString 1920), cached_client, ?w3)"
    by blast
  have names: "''list_games'' \<noteq> ''search_games'' \<and> ''list_games'' \<noteq> ''get_game_details''"
    by simp
  from unknown names
  have r4: "handler scenario_runtime granting_net cached_client early_world ''list_games'' None
     = (error_result (''Unknown tool: '' @ ''list_games''), cached_client, early_world)"
    by blast
  from thrown no_games no_game r1 k r2 r3 r4 show ?thesis
    by (simp add: error_result_def text_result_def numToString_1920)
qed

text \<open>The claim as first stated (every error-marked result begins with \<open>Error:\<close>) fails
  for a call that names a tool the server does not offer.\<close>

theorem handler_unknown_tool_counterexample:
  "isError (fst (handler scenario_runtime granting_net cached_client early_world
                   ''delete_game'' None)) = Some True
   \<and> result_texts (fst (handler scenario_runtime granting_net cached_client early_world
                          ''delete_game'' None)) = [''Unknown tool: delete_game'']
   \<and> \<not> prefix ''Error:'' ''Unknown tool: delete_game''"
  by (simp add: handler_def error_result_def result_texts_def)

end
